theory Spec2Isabelle
  imports Complex_Main "HOL-Library.Word"
begin

section \<open>JavaScript strings and values\<close>

text \<open>
  A JavaScript string is a sequence of UTF-16 code units. String literals of the script are
  written \<open>js ''...''\<close>.
\<close>

type_synonym jsstring = "16 word list"

definition js :: "string \<Rightarrow> jsstring" where
  "js s = map of_char s"

text \<open>
  The code units that \<open>String.prototype.trim\<close> strips and that \<open>\s\<close> matches in a regular
  expression: the WhiteSpace and LineTerminator code points of ECMAScript (TAB, LF, VT, FF, CR,
  SPACE, NBSP, the Unicode space separators, LS, PS and the byte order mark).
\<close>

definition is_space :: "16 word \<Rightarrow> bool" where
  "is_space c \<longleftrightarrow>
     c \<in> {0x09, 0x0A, 0x0B, 0x0C, 0x0D, 0x20, 0xA0, 0x1680, 0x2028, 0x2029, 0x202F,
          0x205F, 0x3000, 0xFEFF}
     \<or> (0x2000 \<le> c \<and> c \<le> 0x200A)"

definition trim :: "jsstring \<Rightarrow> jsstring" where
  "trim s = rev (dropWhile is_space (rev (dropWhile is_space s)))"

datatype exn = TypeError | URIError | Error jsstring

text \<open>
  The values a field of a parsed JSON record can hold, as far as the script tells them apart:
  an absent field reads as \<open>Undefined\<close>; \<open>Other t s\<close> is any value that is not a string
  (a boolean, a number, an array, an object), with its truthiness \<open>t\<close> and its conversion to a
  string \<open>s\<close>, which is \<open>None\<close> when the conversion throws a TypeError (an object whose own
  \<open>toString\<close> is not callable, such as \<open>{"toString": 1}\<close>).
\<close>

datatype jsval = Undefined | Null | Str jsstring | Other bool "jsstring option"

fun truthy :: "jsval \<Rightarrow> bool" where
  "truthy Undefined = False"
| "truthy Null = False"
| "truthy (Str s) = (s \<noteq> [])"
| "truthy (Other t s) = t"

fun to_string :: "jsval \<Rightarrow> exn + jsstring" where
  "to_string Undefined = Inr (js ''undefined'')"
| "to_string Null = Inr (js ''null'')"
| "to_string (Str s) = Inr s"
| "to_string (Other t (Some s)) = Inr s"
| "to_string (Other t None) = Inl TypeError"

text \<open>\<open>x || ''\<close> for a string that may be null or undefined (\<open>None\<close>).\<close>

definition or_empty :: "jsstring option \<Rightarrow> jsstring" where
  "or_empty x = (case x of None \<Rightarrow> [] | Some s \<Rightarrow> s)"

text \<open>Truthiness of a string that may be null or undefined.\<close>

definition present :: "jsstring option \<Rightarrow> bool" where
  "present x = (case x of None \<Rightarrow> False | Some s \<Rightarrow> s \<noteq> [])"

section \<open>Query parameters\<close>

text \<open>
  \<open>parseURLParams\<close> iterates over the entries of \<open>URLSearchParams(window.location.search)\<close>,
  the (name, value) pairs of the query string in order, and fills a plain object \<open>result = {}\<close>.
  The object is modelled by its own properties; reading \<open>result[key]\<close> also finds what the
  object inherits from \<open>Object.prototype\<close>, and every inherited property is truthy.
\<close>

type_synonym params = "jsstring \<rightharpoonup> jsstring"

definition object_prototype_keys :: "jsstring list" where
  "object_prototype_keys = map js
     [''constructor'', ''hasOwnProperty'', ''isPrototypeOf'', ''propertyIsEnumerable'',
      ''toLocaleString'', ''toString'', ''valueOf'', ''__proto__'', ''__defineGetter__'',
      ''__defineSetter__'', ''__lookupGetter__'', ''__lookupSetter__'']"

text \<open>The truthiness of \<open>result[key]\<close>.\<close>

definition is_set :: "params \<Rightarrow> jsstring \<Rightarrow> bool" where
  "is_set result key =
     (case result key of
        Some v \<Rightarrow> v \<noteq> []
      | None \<Rightarrow> key \<in> set object_prototype_keys)"

fun parseURLParams_loop :: "(jsstring \<times> jsstring) list \<Rightarrow> params \<Rightarrow> params" where
  "parseURLParams_loop [] result = result"
| "parseURLParams_loop ((key, v) # rest) result =
     parseURLParams_loop rest (if \<not> is_set result key then result(key \<mapsto> v) else result)"

definition parseURLParams :: "(jsstring \<times> jsstring) list \<Rightarrow> params" where
  "parseURLParams entries = parseURLParams_loop entries Map.empty"

section \<open>Certificate records and the environment\<close>

text \<open>
  A record of \<open>certificates.json\<close>: every field holds whatever the JSON document holds, and
  a field that the record lacks reads as \<open>Undefined\<close>. The fields \<open>id\<close>, \<open>key\<close>, \<open>name\<close>,
  \<open>event\<close>, \<open>type\<close>, \<open>date\<close>, \<open>issuer\<close> of the document carry the prefix \<open>cert_\<close> here.
\<close>

record cert =
  cert_id :: jsval
  cert_key :: jsval
  cert_name :: jsval
  cert_event :: jsval
  cert_type :: jsval
  cert_date :: jsval
  cert_issuer :: jsval

text \<open>
  An element of the array \<open>data.certificates\<close>, as far as the script tells elements apart:
  \<^item> \<open>Object c\<close>: an object with the fields of \<open>c\<close>; an array and a truthy primitive value
    (\<open>true\<close>, a number that is not zero, a string that is not empty) read as an object without
    any of the seven fields;
  \<^item> \<open>FalsyValue\<close>: \<open>false\<close>, \<open>0\<close> or the empty string, where every field reads as undefined
    and the element itself is falsy;
  \<^item> \<open>NullValue\<close>: \<open>null\<close>, where reading a field throws a TypeError.
\<close>

datatype entry = Object cert | FalsyValue | NullValue

text \<open>
  The parsed body of the response: \<open>Certificates es\<close> when \<open>data.certificates\<close> is the array
  \<open>es\<close>, and \<open>NotArray\<close> when it is anything else, or when \<open>data\<close> is null, so that
  \<open>data.certificates.find\<close> throws a TypeError.
\<close>

datatype document = NotArray | Certificates "entry list"

text \<open>
  What \<open>fetch('certificates.json')\<close> does: the promise rejects, or it resolves with a response
  that has a status flag \<open>ok\<close> and a body, which is \<open>None\<close> when \<open>response.json()\<close> rejects.
\<close>

datatype fetch_outcome = Rejected | Response bool "document option"

text \<open>
  The behaviour of the platform and of the two export libraries during one run: the outcome of
  the fetch, the rendering of \<open>new Date(v).toLocaleDateString('en-US', options)\<close>, and for
  \<open>html2canvas\<close>, \<open>canvas.toDataURL\<close>, \<open>new jsPDF\<close> (with the lookup of \<open>window.jspdf\<close>),
  \<open>pdf.addImage\<close> and \<open>pdf.save\<close> the exception each one throws, if any.
\<close>

record env =
  fetch_result :: fetch_outcome
  toLocaleDateString :: "jsval \<Rightarrow> jsstring"
  html2canvas :: "exn option"
  toDataURL :: "exn + jsstring"
  new_jsPDF :: "exn option"
  addImage :: "exn option"
  save :: "exn option"

section \<open>The page\<close>

text \<open>
  What the script does to the outside world, in order: alerts, the fetch of the record
  collection, the loading delay, a navigation, and the two kinds of download.
\<close>

datatype effect =
    Alert jsstring
  | Fetch jsstring
  | Delay nat
  | Navigate jsstring
  | DownloadLink jsstring jsstring
  | SavePdf jsstring jsstring

text \<open>The functions registered as event listeners: the two closures that
  \<open>enableClientProtection\<close> creates, numbered by the call that created them, and the
  handlers of the page itself.\<close>

datatype handler = OnContext nat | OnKey nat | PageHandler nat

text \<open>
  The document and the window, as far as the script reads and writes them. An element that
  \<open>getElementById\<close> or \<open>querySelector\<close> may not find is an option, \<open>None\<close> when it is missing:
  \<^item> the three regions \<open>#loadingState\<close>, \<open>#errorState\<close>, \<open>#certificateState\<close> with their
    \<open>style.display\<close>;
  \<^item> the seven text elements with their \<open>textContent\<close>, the \<open>title\<close> element with its text,
    whether the document has a \<open>head\<close>, and the two Open Graph \<open>meta\<close> elements with their
    \<open>content\<close> attribute (\<open>Some None\<close>: the element has no such attribute);
  \<^item> \<open>.certificate-container\<close> with the scale of its transform and \<open>.certificate-state\<close>
    with its minimal height in pixels (\<open>Some None\<close>: not set), the viewport size;
  \<^item> the variable \<open>_protectionHandlers\<close>, the listeners of the document (event name,
    function, capture flag) and the number of closures created so far;
  \<^item> the children of \<open>document.body\<close> (node identities), \<open>.navigation\<close> with its
    \<open>style.visibility\<close>, the cursor of the body;
  \<^item> the effects so far.
\<close>

record page =
  loadingState :: "jsstring option"
  errorState :: "jsstring option"
  certificateState :: "jsstring option"
  certificateType :: "jsstring option"
  recipientName :: "jsstring option"
  eventName :: "jsstring option"
  completionDate :: "jsstring option"
  issueDate :: "jsstring option"
  issuerName :: "jsstring option"
  certificateId :: "jsstring option"
  title :: "jsstring option"
  has_head :: bool
  ogTitle :: "jsstring option option"
  ogDescription :: "jsstring option option"
  container :: "rat option option"
  certificate_state :: "rat option option"
  innerWidth :: int
  innerHeight :: int
  protectionHandlers :: "(handler \<times> handler) option"
  listeners :: "(jsstring \<times> handler \<times> bool) list"
  closures :: nat
  body :: "nat list"
  navigation :: "jsstring option"
  cursor :: jsstring
  effects :: "effect list"

definition emit :: "effect \<Rightarrow> page \<Rightarrow> page" where
  "emit e p = p\<lparr>effects := effects p @ [e]\<rparr>"

subsection \<open>The three display states\<close>

text \<open>\<open>if (element) element.style.property = v\<close>, for an element that may be missing.\<close>

definition set_style :: "jsstring \<Rightarrow> jsstring option \<Rightarrow> jsstring option" where
  "set_style v element = map_option (\<lambda>_. v) element"

definition showLoading :: "page \<Rightarrow> page" where
  "showLoading p = p\<lparr>loadingState := set_style (js ''block'') (loadingState p),
                     errorState := set_style (js ''none'') (errorState p),
                     certificateState := set_style (js ''none'') (certificateState p)\<rparr>"

definition showError :: "page \<Rightarrow> page" where
  "showError p = p\<lparr>loadingState := set_style (js ''none'') (loadingState p),
                   errorState := set_style (js ''block'') (errorState p),
                   certificateState := set_style (js ''none'') (certificateState p)\<rparr>"

subsection \<open>Responsive scaling\<close>

text \<open>
  \<open>window.innerWidth\<close> and \<open>window.innerHeight\<close> are integers. The two quotients are rational
  numbers here; the script computes them in binary floating point, where rounding is monotone,
  so that \<open>Math.min\<close> and \<open>Math.max\<close> select the same operand. The scale and the minimal
  height are the exact values of what the script computes with rounding.
\<close>

definition applyResponsiveScale :: "page \<Rightarrow> page" where
  "applyResponsiveScale p =
     (case container p of
        None \<Rightarrow> p
      | Some _ \<Rightarrow>
          let baseWidth = 1123;
              baseHeight = 794;
              viewportWidth = innerWidth p;
              viewportHeight = innerHeight p;
              horizontalPadding = (if viewportWidth < 768 then 20 else 40);
              verticalPadding = (if viewportWidth < 768 then 100 else 200);
              availableWidth = viewportWidth - horizontalPadding;
              availableHeight = viewportHeight - verticalPadding;
              scaleX = of_int availableWidth / baseWidth;
              scaleY = of_int availableHeight / baseHeight;
              scale0 = min (min scaleX scaleY) 1;
              scale = max scale0 (1 / 4);
              scaledHeight = baseHeight * scale
          in p\<lparr>container := Some (Some scale),
                certificate_state := map_option (\<lambda>_. Some (scaledHeight + 40)) (certificate_state p)\<rparr>)"

subsection \<open>Client-side protection\<close>

text \<open>
  \<open>addEventListener\<close> does nothing when the same function is already registered for the same
  event and capture flag; \<open>removeEventListener\<close> removes the matching registration, if any.
\<close>

definition addEventListener :: "jsstring \<times> handler \<times> bool \<Rightarrow> page \<Rightarrow> page" where
  "addEventListener l p = (if l \<in> set (listeners p) then p else p\<lparr>listeners := listeners p @ [l]\<rparr>)"

definition removeEventListener :: "jsstring \<times> handler \<times> bool \<Rightarrow> page \<Rightarrow> page" where
  "removeEventListener l p = p\<lparr>listeners := remove1 l (listeners p)\<rparr>"

definition enableClientProtection :: "page \<Rightarrow> page" where
  "enableClientProtection p =
     (case protectionHandlers p of
        Some _ \<Rightarrow> p
      | None \<Rightarrow>
          let onContext = OnContext (closures p);
              onKey = OnKey (closures p);
              p1 = p\<lparr>closures := Suc (closures p)\<rparr>;
              p2 = addEventListener (js ''contextmenu'', onContext, False) p1;
              p3 = addEventListener (js ''keydown'', onKey, True) p2
          in p3\<lparr>protectionHandlers := Some (onContext, onKey)\<rparr>)"

definition disableClientProtection :: "page \<Rightarrow> page" where
  "disableClientProtection p =
     (case protectionHandlers p of
        None \<Rightarrow> p
      | Some (onContext, onKey) \<Rightarrow>
          let p1 = removeEventListener (js ''contextmenu'', onContext, False) p;
              p2 = removeEventListener (js ''keydown'', onKey, True) p1
          in p2\<lparr>protectionHandlers := None\<rparr>)"

text \<open>
  In \<open>showCertificate\<close> the calls of \<open>enableClientProtection\<close> and \<open>applyResponsiveScale\<close>
  are each wrapped in a \<open>try\<close> that ignores the error; neither of them throws.
\<close>

definition showCertificate :: "page \<Rightarrow> page" where
  "showCertificate p =
     (let p1 = p\<lparr>loadingState := set_style (js ''none'') (loadingState p),
                 errorState := set_style (js ''none'') (errorState p)\<rparr>
      in case certificateState p1 of
           None \<Rightarrow> p1
         | Some _ \<Rightarrow>
             applyResponsiveScale
               (enableClientProtection (p1\<lparr>certificateState := Some (js ''block'')\<rparr>)))"

section \<open>Certificate validation\<close>

text \<open>
  \<open>fetchCertificates\<close>: a rejected fetch, a response that is not \<open>ok\<close> and a body that is not
  JSON all end in the same error.
\<close>

definition fetchCertificates :: "env \<Rightarrow> page \<Rightarrow> (exn + document) \<times> page" where
  "fetchCertificates e p =
     (let p1 = emit (Fetch (js ''certificates.json'')) p;
          failed = Inl (Error (js ''Failed to load certificate database''))
      in case fetch_result e of
           Rejected \<Rightarrow> (failed, p1)
         | Response ok data \<Rightarrow>
             if \<not> ok then (failed, p1)
             else (case data of None \<Rightarrow> (failed, p1) | Some d \<Rightarrow> (Inr d, p1)))"

text \<open>
  \<open>(x || '').trim()\<close> for a field \<open>x\<close> of a record: a falsy value is replaced by the empty
  string; a truthy value that is not a string has no method \<open>trim\<close>, and the call throws.
\<close>

definition trimmed :: "jsval \<Rightarrow> exn + jsstring" where
  "trimmed x =
     (if truthy x then (case x of Str s \<Rightarrow> Inr (trim s) | _ \<Rightarrow> Inl TypeError)
      else Inr (trim []))"

text \<open>
  The callback of \<open>find\<close> in \<open>validateCertificate\<close>: \<open>certId\<close> and \<open>certKey\<close> are both
  computed before they are compared.
\<close>

definition credentials_match :: "jsstring \<Rightarrow> jsstring \<Rightarrow> entry \<Rightarrow> exn + bool" where
  "credentials_match normalizedId normalizedKey x =
     (case x of
        NullValue \<Rightarrow> Inl TypeError
      | FalsyValue \<Rightarrow> Inr (trim [] = normalizedId \<and> trim [] = normalizedKey)
      | Object c \<Rightarrow>
          (case trimmed (cert_id c) of
             Inl err \<Rightarrow> Inl err
           | Inr certId \<Rightarrow>
               (case trimmed (cert_key c) of
                  Inl err \<Rightarrow> Inl err
                | Inr certKey \<Rightarrow> Inr (certId = normalizedId \<and> certKey = normalizedKey))))"

text \<open>\<open>Array.prototype.find\<close> with a callback that may throw.\<close>

fun find_entry :: "(entry \<Rightarrow> exn + bool) \<Rightarrow> entry list \<Rightarrow> exn + entry option" where
  "find_entry f [] = Inr None"
| "find_entry f (x # xs) =
     (case f x of
        Inl err \<Rightarrow> Inl err
      | Inr found \<Rightarrow> if found then Inr (Some x) else find_entry f xs)"

text \<open>\<open>certificate || null\<close>, where \<open>certificate\<close> is the result of \<open>find\<close>.\<close>

fun or_null :: "entry option \<Rightarrow> cert option" where
  "or_null (Some (Object c)) = Some c"
| "or_null (Some FalsyValue) = None"
| "or_null (Some NullValue) = None"
| "or_null None = None"

text \<open>
  \<open>validateCertificate(id, key)\<close>, for arguments that are strings, null or undefined. Every
  error inside the \<open>try\<close> block is caught and gives \<open>null\<close>: the error of the fetch, the
  TypeError of \<open>data.certificates.find\<close> on something that is no array, and an error thrown by
  the callback.
\<close>

definition validateCertificate ::
    "env \<Rightarrow> jsstring option \<Rightarrow> jsstring option \<Rightarrow> page \<Rightarrow> cert option \<times> page" where
  "validateCertificate e i k p =
     (case fetchCertificates e p of
        (Inl err, p1) \<Rightarrow> (None, p1)
      | (Inr NotArray, p1) \<Rightarrow> (None, p1)
      | (Inr (Certificates certificates), p1) \<Rightarrow>
          let normalizedId = trim (or_empty i);
              normalizedKey = trim (or_empty k)
          in case find_entry (credentials_match normalizedId normalizedKey) certificates of
               Inl err \<Rightarrow> (None, p1)
             | Inr certificate \<Rightarrow> (or_null certificate, p1))"

section \<open>Certificate display\<close>

text \<open>
  Assigning a value to \<open>textContent\<close> converts it to a string: null and undefined become the
  empty string, and the conversion of an object may throw.
\<close>

definition dom_string :: "jsval \<Rightarrow> exn + jsstring" where
  "dom_string v = (case v of Undefined \<Rightarrow> Inr [] | Null \<Rightarrow> Inr [] | _ \<Rightarrow> to_string v)"

text \<open>Reading \<open>innerHTML\<close> of an element that holds one text node escapes four characters.\<close>

definition escape_unit :: "16 word \<Rightarrow> jsstring" where
  "escape_unit c =
     (if c = 0x26 then js ''&amp;''
      else if c = 0x3C then js ''&lt;''
      else if c = 0x3E then js ''&gt;''
      else if c = 0xA0 then js ''&nbsp;''
      else [c])"

definition sanitizeText :: "jsval \<Rightarrow> exn + jsstring" where
  "sanitizeText text = map_sum id (\<lambda>s. concat (map escape_unit s)) (dom_string text)"

text \<open>
  \<open>formatDate\<close>: \<open>new Date(dateString)\<close> throws when the conversion of its argument to a
  primitive value does; the error is caught and the argument returned as it is.
\<close>

definition formatDate :: "env \<Rightarrow> jsval \<Rightarrow> jsval" where
  "formatDate e dateString =
     (case to_string dateString of
        Inl err \<Rightarrow> dateString
      | Inr _ \<Rightarrow> Str (toLocaleDateString e dateString))"

text \<open>A template literal: its literal chunks (\<open>Inl\<close>) and substitutions (\<open>Inr\<close>), left to right.\<close>

fun template :: "(jsstring + jsval) list \<Rightarrow> exn + jsstring" where
  "template [] = Inr []"
| "template (Inl s # rest) = map_sum id ((@) s) (template rest)"
| "template (Inr v # rest) =
     (case to_string v of
        Inl err \<Rightarrow> Inl err
      | Inr s \<Rightarrow> map_sum id ((@) s) (template rest))"

text \<open>
  \<open>updateOpenGraphMeta\<close> catches its own errors: \<open>document.head.appendChild\<close> on a document
  without head, and the conversion of a field inside a template literal. What was done before
  the error stays done.
\<close>

definition updateOpenGraphMeta :: "cert \<Rightarrow> page \<Rightarrow> page" where
  "updateOpenGraphMeta c p =
     (if ogTitle p = None \<and> \<not> has_head p then p
      else
        let p1 = (if ogTitle p = None then p\<lparr>ogTitle := Some None\<rparr> else p)
        in case template [Inr (cert_name c), Inl (js '' - ''), Inr (cert_type c),
                          Inl (js '' - PTSC KNIT'')] of
             Inl err \<Rightarrow> p1
           | Inr t \<Rightarrow>
               let p2 = p1\<lparr>ogTitle := Some (Some t)\<rparr>
               in if ogDescription p2 = None \<and> \<not> has_head p2 then p2
                  else
                    let p3 = (if ogDescription p2 = None then p2\<lparr>ogDescription := Some None\<rparr>
                              else p2)
                    in case template
                              [Inr (cert_name c), Inl (js '' has successfully completed ''),
                               Inr (cert_event c),
                               Inl (js '' at Programming and Tech Skill Club, KNIT Sultanpur.'')] of
                         Inl err \<Rightarrow> p3
                       | Inr d \<Rightarrow> p3\<lparr>ogDescription := Some (Some d)\<rparr>)"

text \<open>
  \<open>if (element && value) element.textContent = convert(value)\<close>: the new text of the element,
  or the error of the conversion.
\<close>

definition write_text ::
    "jsstring option \<Rightarrow> jsval \<Rightarrow> (jsval \<Rightarrow> exn + jsstring) \<Rightarrow> exn + jsstring option" where
  "write_text element v convert =
     (if element \<noteq> None \<and> truthy v then map_sum id Some (convert v) else Inr element)"

text \<open>
  \<open>document.title = t\<close>: nothing happens in a document that has neither a \<open>title\<close> element
  nor a \<open>head\<close> to put one into.
\<close>

definition set_title :: "jsstring \<Rightarrow> page \<Rightarrow> page" where
  "set_title t p = (if title p = None \<and> \<not> has_head p then p else p\<lparr>title := Some t\<rparr>)"

text \<open>
  The \<open>try\<close> block of \<open>updateCertificateDisplay\<close>: the error thrown, if any, and the page
  at that moment.
\<close>

definition populate :: "env \<Rightarrow> cert \<Rightarrow> page \<Rightarrow> exn option \<times> page" where
  "populate e c p =
     (case write_text (certificateType p) (cert_type c) sanitizeText of
        Inl err \<Rightarrow> (Some err, p)
      | Inr t1 \<Rightarrow>
     let p1 = p\<lparr>certificateType := t1\<rparr> in
     case write_text (recipientName p1) (cert_name c) sanitizeText of
        Inl err \<Rightarrow> (Some err, p1)
      | Inr t2 \<Rightarrow>
     let p2 = p1\<lparr>recipientName := t2\<rparr> in
     case write_text (eventName p2) (cert_event c) sanitizeText of
        Inl err \<Rightarrow> (Some err, p2)
      | Inr t3 \<Rightarrow>
     let p3 = p2\<lparr>eventName := t3\<rparr> in
     case write_text (completionDate p3) (cert_date c) (\<lambda>v. dom_string (formatDate e v)) of
        Inl err \<Rightarrow> (Some err, p3)
      | Inr t4 \<Rightarrow>
     let p4 = p3\<lparr>completionDate := t4\<rparr> in
     case write_text (issueDate p4) (cert_date c) (\<lambda>v. dom_string (formatDate e v)) of
        Inl err \<Rightarrow> (Some err, p4)
      | Inr t5 \<Rightarrow>
     let p5 = p4\<lparr>issueDate := t5\<rparr> in
     case write_text (issuerName p5) (cert_issuer c) sanitizeText of
        Inl err \<Rightarrow> (Some err, p5)
      | Inr t6 \<Rightarrow>
     let p6 = p5\<lparr>issuerName := t6\<rparr> in
     case write_text (certificateId p6) (cert_id c) sanitizeText of
        Inl err \<Rightarrow> (Some err, p6)
      | Inr t7 \<Rightarrow>
     let p7 = p6\<lparr>certificateId := t7\<rparr> in
     if truthy (cert_name c) then
       (case template [Inl (js ''Certificate - ''), Inr (cert_name c), Inl (js '' - PTSC KNIT'')] of
          Inl err \<Rightarrow> (Some err, p7)
        | Inr t \<Rightarrow> (None, updateOpenGraphMeta c (set_title t p7)))
     else (None, updateOpenGraphMeta c p7))"

definition updateCertificateDisplay :: "env \<Rightarrow> cert \<Rightarrow> page \<Rightarrow> page" where
  "updateCertificateDisplay e c p =
     (case populate e c p of
        (None, p1) \<Rightarrow> p1
      | (Some err, p1) \<Rightarrow> showError p1)"

section \<open>The verification flow\<close>

text \<open>
  \<open>verifyCertificate\<close>, on the entries of the query string. \<open>params.id\<close> and \<open>params.key\<close>
  read own properties of the parsed object (\<open>Object.prototype\<close> has neither name). Every
  function called inside the \<open>try\<close> block catches its own errors, so the handler of the block
  is never entered.
\<close>

definition verifyCertificate :: "env \<Rightarrow> (jsstring \<times> jsstring) list \<Rightarrow> page \<Rightarrow> page" where
  "verifyCertificate e entries p =
     (let p1 = showLoading p;
          params = parseURLParams entries;
          certificateId = params (js ''id'');
          certificateKey = params (js ''key'')
      in if \<not> present certificateId \<or> \<not> present certificateKey then showError p1
         else
           let p2 = emit (Delay 1000) p1
           in case validateCertificate e certificateId certificateKey p2 of
                (Some certificate, p3) \<Rightarrow> showCertificate (updateCertificateDisplay e certificate p3)
              | (None, p3) \<Rightarrow> showError p3)"

section \<open>The form of the index page\<close>

text \<open>
  The two regular expressions of \<open>handleFormSubmit\<close> are anchored at both ends and are
  sequences of character classes, each repeated a fixed number of times. Without the
  multiline flag \<open>$\<close> matches at the end of the input only; \<open>\d\<close> is \<open>[0-9]\<close>.
\<close>

datatype char_class = Lit "16 word" | Digit | AlphaNum

fun in_class :: "char_class \<Rightarrow> 16 word \<Rightarrow> bool" where
  "in_class (Lit a) c = (c = a)"
| "in_class Digit c = (0x30 \<le> c \<and> c \<le> 0x39)"
| "in_class AlphaNum c =
     ((0x61 \<le> c \<and> c \<le> 0x7A) \<or> (0x41 \<le> c \<and> c \<le> 0x5A) \<or> (0x30 \<le> c \<and> c \<le> 0x39))"

type_synonym regex = "(char_class \<times> nat) list"

fun test :: "regex \<Rightarrow> jsstring \<Rightarrow> bool" where
  "test [] s = (s = [])"
| "test ((k, n) # r) s =
     (n \<le> length s \<and> list_all (in_class k) (take n s) \<and> test r (drop n s))"

text \<open>\<open>/^PTSC\d{4}-\d{4}$/\<close>\<close>

definition certificate_id_regex :: regex where
  "certificate_id_regex =
     [(Lit (of_char CHR ''P''), 1), (Lit (of_char CHR ''T''), 1), (Lit (of_char CHR ''S''), 1),
      (Lit (of_char CHR ''C''), 1), (Digit, 4), (Lit (of_char CHR ''-''), 1), (Digit, 4)]"

text \<open>\<open>/^[a-zA-Z0-9]{10}$/\<close>\<close>

definition certificate_key_regex :: regex where
  "certificate_key_regex = [(AlphaNum, 10)]"

subsection \<open>\<open>encodeURIComponent\<close>\<close>

text \<open>
  Letters, digits and \<open>- _ . ! ~ * ' ( )\<close> are kept; every other code point is written as the
  bytes of its UTF-8 encoding, each as \<open>%XX\<close>; a surrogate without its partner throws a URIError.
\<close>

definition uri_unescaped :: "16 word \<Rightarrow> bool" where
  "uri_unescaped c \<longleftrightarrow> in_class AlphaNum c \<or> c \<in> of_char ` set ''-_.!~*'()''"

definition hex_digit :: "nat \<Rightarrow> 16 word" where
  "hex_digit n = (if n < 10 then of_nat (48 + n) else of_nat (55 + n))"

definition percent :: "nat \<Rightarrow> jsstring" where
  "percent b = [0x25, hex_digit (b div 16), hex_digit (b mod 16)]"

definition utf8 :: "nat \<Rightarrow> nat list" where
  "utf8 cp =
     (if cp < 0x80 then [cp]
      else if cp < 0x800 then [0xC0 + cp div 64, 0x80 + cp mod 64]
      else if cp < 0x10000 then [0xE0 + cp div 4096, 0x80 + cp div 64 mod 64, 0x80 + cp mod 64]
      else [0xF0 + cp div 262144, 0x80 + cp div 4096 mod 64, 0x80 + cp div 64 mod 64,
            0x80 + cp mod 64])"

definition escape_code_point :: "nat \<Rightarrow> jsstring" where
  "escape_code_point cp = concat (map percent (utf8 cp))"

fun encodeURIComponent :: "jsstring \<Rightarrow> exn + jsstring" where
  "encodeURIComponent [] = Inr []"
| "encodeURIComponent (c # cs) =
     (if uri_unescaped c then map_sum id ((#) c) (encodeURIComponent cs)
      else if 0xD800 \<le> c \<and> c \<le> 0xDBFF then
        (case cs of
           [] \<Rightarrow> Inl URIError
         | d # ds \<Rightarrow>
             if 0xDC00 \<le> d \<and> d \<le> 0xDFFF
             then map_sum id
                    ((@) (escape_code_point
                            (0x10000 + (unat c - 0xD800) * 0x400 + (unat d - 0xDC00))))
                    (encodeURIComponent ds)
             else Inl URIError)
      else if 0xDC00 \<le> c \<and> c \<le> 0xDFFF then Inl URIError
      else map_sum id ((@) (escape_code_point (unat c))) (encodeURIComponent cs))"

subsection \<open>\<open>handleFormSubmit\<close>\<close>

text \<open>
  The two arguments are \<open>formData.get('certificateId')\<close> and \<open>formData.get('certificateKey')\<close>,
  \<open>None\<close> when the form has no such field. An error inside the \<open>try\<close> block, which only
  \<open>encodeURIComponent\<close> can throw, ends in the last alert.
\<close>

definition handleFormSubmit :: "jsstring option \<Rightarrow> jsstring option \<Rightarrow> page \<Rightarrow> page" where
  "handleFormSubmit idField keyField p =
     (let certificateId = map_option trim idField;
          certificateKey = map_option trim keyField
      in if \<not> present certificateId \<or> \<not> present certificateKey
         then emit (Alert (js ''Please enter both Certificate ID and Verification Key'')) p
         else if \<not> test certificate_id_regex (or_empty certificateId)
         then emit (Alert (js ''Certificate ID should be in format: PTSC2025-0123'')) p
         else if \<not> test certificate_key_regex (or_empty certificateKey)
         then emit (Alert (js ''Verification key should be 10 alphanumeric characters'')) p
         else
           (case encodeURIComponent (or_empty certificateId) of
              Inl err \<Rightarrow> emit (Alert (js ''An error occurred. Please try again.'')) p
            | Inr encodedId \<Rightarrow>
                (case encodeURIComponent (or_empty certificateKey) of
                   Inl err \<Rightarrow> emit (Alert (js ''An error occurred. Please try again.'')) p
                 | Inr encodedKey \<Rightarrow>
                     emit (Navigate (js ''certificate.html?id='' @ encodedId @ js ''&key=''
                                     @ encodedKey)) p)))"

section \<open>Download\<close>

text \<open>\<open>s.replace(/\s+/g, '_')\<close>: every maximal run of white space becomes one underscore.\<close>

function replace_spaces :: "jsstring \<Rightarrow> jsstring" where
  "replace_spaces [] = []"
| "replace_spaces (c # cs) =
     (if is_space c then 0x5F # replace_spaces (dropWhile is_space cs)
      else c # replace_spaces cs)"
  by pat_completeness auto
termination
  by (relation "measure length") (auto intro: le_imp_less_Suc length_dropWhile_le)

text \<open>\<open>cloneNode\<close> creates a node that is not in the document.\<close>

definition fresh_node :: "nat list \<Rightarrow> nat" where
  "fresh_node ns = Suc (fold max ns 0)"

text \<open>
  The two branches on \<open>format\<close> inside the \<open>try\<close> block of \<open>downloadCertificate\<close>, after
  \<open>html2canvas\<close> has produced the canvas: the error thrown, if any, and the page at that
  moment. The pixel ratio handed to \<open>html2canvas\<close> and the placement of the image on the PDF
  page are arithmetic on numbers, which never throws and which none of the effects depends on.
\<close>

definition export_image :: "env \<Rightarrow> jsstring \<Rightarrow> jsstring \<Rightarrow> page \<Rightarrow> exn option \<times> page" where
  "export_image e format filenameBase p =
     (if format = js ''jpg'' then
        (case toDataURL e of
           Inl err \<Rightarrow> (Some err, p)
         | Inr url \<Rightarrow> (None, emit (DownloadLink (filenameBase @ js ''.jpg'') url) p))
      else if format = js ''pdf'' then
        (case new_jsPDF e of
           Some err \<Rightarrow> (Some err, p)
         | None \<Rightarrow>
        case toDataURL e of
           Inl err \<Rightarrow> (Some err, p)
         | Inr url \<Rightarrow>
        case addImage e of
           Some err \<Rightarrow> (Some err, p)
         | None \<Rightarrow>
        case save e of
           Some err \<Rightarrow> (Some err, p)
         | None \<Rightarrow> (None, emit (SavePdf (filenameBase @ js ''.pdf'') url) p))
      else (None, p))"

text \<open>The \<open>try\<close> block of \<open>downloadCertificate\<close>.\<close>

definition download_try :: "env \<Rightarrow> jsstring \<Rightarrow> jsstring \<Rightarrow> page \<Rightarrow> exn option \<times> page" where
  "download_try e format filenameBase p =
     (let p1 = p\<lparr>navigation := set_style (js ''hidden'') (navigation p)\<rparr>;
          originalCursor = cursor p1;
          p2 = p1\<lparr>cursor := js ''wait''\<rparr>
      in case html2canvas e of
           Some err \<Rightarrow> (Some err, p2)
         | None \<Rightarrow>
             (case export_image e format filenameBase p2 of
                (Some err, p3) \<Rightarrow> (Some err, p3)
              | (None, p3) \<Rightarrow>
                  (None, p3\<lparr>cursor := originalCursor,
                            navigation := set_style (js ''visible'') (navigation p3)\<rparr>)))"

text \<open>
  \<open>downloadCertificate\<close>. In the \<open>finally\<close> block \<open>removeChild\<close> throws when the clone is no
  child of the body; that error is ignored, as one of \<open>enableClientProtection\<close> would be.
\<close>

definition downloadCertificate :: "env \<Rightarrow> jsstring \<Rightarrow> page \<Rightarrow> page" where
  "downloadCertificate e format p =
     (case container p of
        None \<Rightarrow>
          emit (Alert (js ''Certificate not found. Please ensure the certificate is loaded.'')) p
      | Some _ \<Rightarrow>
          let recipient = (if present (recipientName p) then or_empty (recipientName p)
                           else js ''Certificate'');
              certId = (if present (certificateId p) then or_empty (certificateId p)
                        else js ''PTSC'');
              filenameBase = replace_spaces recipient @ js ''_'' @ certId
                             @ js ''_PTSC_Certificate'';
              clone = fresh_node (body p);
              p1 = p\<lparr>body := body p @ [clone]\<rparr>;
              p3 = (case download_try e format filenameBase p1 of
                      (Some err, p2) \<Rightarrow>
                        emit (Alert (js ''Download failed. Please try again or use the print option.'')) p2
                    | (None, p2) \<Rightarrow> p2);
              p4 = p3\<lparr>body := remove1 clone (body p3)\<rparr>;
              p5 = p4\<lparr>navigation := set_style (js ''visible'') (navigation p4)\<rparr>
          in enableClientProtection p5)"

section \<open>Notions of the specification\<close>

text \<open>
  The data model of the specification: the identifier and the key of a record are strings.
  A field is textual when it is a string, or absent or null; its text is then that string, or
  the empty string.
\<close>

fun textual :: "jsval \<Rightarrow> bool" where
  "textual (Other t s) = False"
| "textual v = True"

fun text_of :: "jsval \<Rightarrow> jsstring" where
  "text_of (Str s) = s"
| "text_of v = []"

definition well_typed :: "cert \<Rightarrow> bool" where
  "well_typed c \<longleftrightarrow> textual (cert_id c) \<and> textual (cert_key c)"

text \<open>
  The Matcher of the specification: a record matches when its trimmed identifier and its
  trimmed key both equal the trimmed inputs, null and undefined counting as the empty string.
\<close>

definition exact_match :: "jsstring option \<Rightarrow> jsstring option \<Rightarrow> cert \<Rightarrow> bool" where
  "exact_match i k c \<longleftrightarrow>
     trim (text_of (cert_id c)) = trim (or_empty i) \<and>
     trim (text_of (cert_key c)) = trim (or_empty k)"



text \<open>
  The display state of the specification: which one of the three regions is visible. A region
  is visible when it exists and its \<open>style.display\<close> is \<open>block\<close>, as the three \<open>show\<close>
  functions set it.
\<close>

datatype display = LOADING | ERROR | CERTIFICATE

definition visible :: "jsstring option \<Rightarrow> bool" where
  "visible region \<longleftrightarrow> region = Some (js ''block'')"

definition display_state :: "page \<Rightarrow> display option" where
  "display_state p =
     (if visible (loadingState p) \<and> \<not> visible (errorState p) \<and> \<not> visible (certificateState p)
      then Some LOADING
      else if \<not> visible (loadingState p) \<and> visible (errorState p) \<and> \<not> visible (certificateState p)
      then Some ERROR
      else if \<not> visible (loadingState p) \<and> \<not> visible (errorState p) \<and> visible (certificateState p)
      then Some CERTIFICATE
      else None)"

text \<open>
  The scale factor of the specification: the least of the width-fit ratio, the height-fit
  ratio and 1, floored at 0.25.
\<close>

definition fit_scale :: "rat \<Rightarrow> rat \<Rightarrow> rat" where
  "fit_scale availableWidth availableHeight =
     max (min (availableWidth / 1123) (min (availableHeight / 794) 1)) (1 / 4)"

text \<open>
  Any sequence of calls of \<open>enableClientProtection\<close> and \<open>disableClientProtection\<close>, the
  listeners of the document that are protection closures, and what the installed flag promises
  about them: no such listener when \<open>_protectionHandlers\<close> is null, and otherwise exactly the
  pair it holds.
\<close>

datatype call = Enable | Disable

fun run :: "call list \<Rightarrow> page \<Rightarrow> page" where
  "run [] p = p"
| "run (Enable # calls) p = run calls (enableClientProtection p)"
| "run (Disable # calls) p = run calls (disableClientProtection p)"

fun is_protection :: "jsstring \<times> handler \<times> bool \<Rightarrow> bool" where
  "is_protection (ev, OnContext n, capture) = True"
| "is_protection (ev, OnKey n, capture) = True"
| "is_protection (ev, PageHandler n, capture) = False"

definition protection_listeners :: "page \<Rightarrow> (jsstring \<times> handler \<times> bool) list" where
  "protection_listeners p = filter is_protection (listeners p)"

definition installed_pair :: "page \<Rightarrow> bool" where
  "installed_pair p \<longleftrightarrow>
     (case protectionHandlers p of
        None \<Rightarrow> protection_listeners p = []
      | Some (onContext, onKey) \<Rightarrow>
          protection_listeners p = [(js ''contextmenu'', onContext, False), (js ''keydown'', onKey, True)])"

text \<open>
  The two patterns of the Form Gate: an identifier is \<open>PTSC\<close>, four digits, a dash and four
  digits; a key is ten alphanumeric characters.
\<close>

definition is_digit :: "16 word \<Rightarrow> bool" where
  "is_digit c \<longleftrightarrow> of_char CHR ''0'' \<le> c \<and> c \<le> of_char CHR ''9''"

definition is_alphanumeric :: "16 word \<Rightarrow> bool" where
  "is_alphanumeric c \<longleftrightarrow>
     (of_char CHR ''a'' \<le> c \<and> c \<le> of_char CHR ''z'')
     \<or> (of_char CHR ''A'' \<le> c \<and> c \<le> of_char CHR ''Z'')
     \<or> is_digit c"

definition well_formed_id :: "jsstring \<Rightarrow> bool" where
  "well_formed_id s \<longleftrightarrow>
     length s = 13 \<and> take 4 s = js ''PTSC'' \<and> list_all is_digit (take 4 (drop 4 s))
     \<and> take 1 (drop 8 s) = js ''-'' \<and> list_all is_digit (drop 9 s)"

definition well_formed_key :: "jsstring \<Rightarrow> bool" where
  "well_formed_key s \<longleftrightarrow> length s = 10 \<and> list_all is_alphanumeric s"

text \<open>
  A failure of the export: the rasterization fails, or for \<open>jpg\<close> the encoding of the
  canvas, or for \<open>pdf\<close> one of the steps that embed the image into the document.
\<close>

definition export_fails :: "env \<Rightarrow> jsstring \<Rightarrow> bool" where
  "export_fails e format \<longleftrightarrow>
     html2canvas e \<noteq> None
     \<or> (format = js ''jpg'' \<and> isl (toDataURL e))
     \<or> (format \<noteq> js ''jpg'' \<and> format = js ''pdf''
         \<and> (new_jsPDF e \<noteq> None \<or> isl (toDataURL e) \<or> addImage e \<noteq> None \<or> save e \<noteq> None))"

section \<open>A sample collection, environment and page\<close>

definition jane :: cert where
  "jane = \<lparr>cert_id = Str (js ''PTSC2025-0001''), cert_key = Str (js ''AAAAAAAAAA''),
           cert_name = Str (js ''Jane Doe''), cert_event = Str (js ''Web Workshop''),
           cert_type = Str (js ''Participation''), cert_date = Str (js ''2025-01-15''),
           cert_issuer = Str (js ''PTSC KNIT'')\<rparr>"

text \<open>A record whose name is the JSON object \<open>{"toString": 1}\<close>.\<close>

definition unprintable :: cert where
  "unprintable = jane\<lparr>cert_id := Str (js ''PTSC2025-0002''), cert_name := Other True None\<rparr>"

definition example_certificates :: "cert list" where
  "example_certificates =
     [jane\<lparr>cert_id := Str (js ''ptsc2025-0001''), cert_name := Str (js ''Lower Case'')\<rparr>,
      jane\<lparr>cert_id := Str (js ''PTSC2025-00012''), cert_name := Str (js ''Longer Id'')\<rparr>,
      jane,
      jane\<lparr>cert_name := Str (js ''John Twin'')\<rparr>,
      jane\<lparr>cert_id := Undefined, cert_key := Str (js ''  ''), cert_name := Str (js ''No Id'')\<rparr>,
      jane\<lparr>cert_id := Str [], cert_key := Null, cert_name := Str (js ''Empty'')\<rparr>,
      unprintable]"

definition example_env :: env where
  "example_env =
     \<lparr>fetch_result = Response True (Some (Certificates (map Object example_certificates))),
      toLocaleDateString = (\<lambda>v. js ''January 15, 2025''),
      html2canvas = None,
      toDataURL = Inr (js ''data:image/jpeg;base64,AAAA''),
      new_jsPDF = None,
      addImage = None,
      save = None\<rparr>"





definition example_page :: page where
  "example_page =
     \<lparr>loadingState = Some (js ''block''), errorState = Some (js ''none''),
      certificateState = Some (js ''none''),
      certificateType = Some [], recipientName = Some [], eventName = Some [],
      completionDate = Some [], issueDate = Some [], issuerName = Some [],
      certificateId = Some [],
      title = Some (js ''Certificate Verification - PTSC KNIT''),
      has_head = True, ogTitle = None, ogDescription = None,
      container = Some None, certificate_state = Some None,
      innerWidth = 1280, innerHeight = 800,
      protectionHandlers = None, listeners = [(js ''DOMContentLoaded'', PageHandler 0, False)],
      closures = 0,
      body = [0, 1, 2], navigation = Some [], cursor = [],
      effects = []\<rparr>"

section \<open>What the display functions leave alone\<close>

text \<open>Two pages with the same three regions and the same effects.\<close>

definition frame :: "page \<Rightarrow> page \<Rightarrow> bool" where
  "frame p q \<longleftrightarrow> loadingState q = loadingState p \<and> errorState q = errorState p
     \<and> certificateState q = certificateState p \<and> effects q = effects p"

section \<open>Trimming\<close>




section \<open>The Matcher\<close>

lemma trimmed_textual: "textual v \<Longrightarrow> trimmed v = Inr (trim (text_of v))"
  by (cases v) (auto simp: trimmed_def)

lemma credentials_match_typed:
  "well_typed c \<Longrightarrow>
   credentials_match (trim (or_empty i)) (trim (or_empty k)) (Object c) = Inr (exact_match i k c)"
  by (simp add: credentials_match_def well_typed_def trimmed_textual exact_match_def)

lemma find_entry_typed:
  "list_all well_typed cs \<Longrightarrow>
   find_entry (credentials_match (trim (or_empty i)) (trim (or_empty k))) (map Object cs)
   = Inr (map_option Object (find (exact_match i k) cs))"
  by (induction cs) (simp_all add: credentials_match_typed)

lemma or_null_Object: "or_null (map_option Object r) = r"
  by (cases r) simp_all

lemma validateCertificate_loaded:
  "fetch_result e = Response True (Some (Certificates (map Object cs))) \<Longrightarrow>
   list_all well_typed cs \<Longrightarrow>
   fst (validateCertificate e i k p) = find (exact_match i k) cs"
  by (simp add: validateCertificate_def fetchCertificates_def find_entry_typed or_null_Object)

lemma example_certificates_typed: "list_all well_typed example_certificates"
  by (simp add: example_certificates_def unprintable_def jane_def well_typed_def)

lemma example_env_loaded:
  "fetch_result example_env = Response True (Some (Certificates (map Object example_certificates)))"
  by (simp add: example_env_def)











section \<open>The Parameter Reader\<close>

text \<open>
  Claim C3. The specification binds each parameter name to the value of its first occurrence,
  also when that value is the empty string. \<open>parseURLParams\<close> tests \<open>!result[key]\<close>, and an
  empty string is falsy: for the query \<open>?id=&id=PTSC2025-0001\<close> the second occurrence
  overwrites the first. A first occurrence that is not empty is kept.
\<close>

theorem parseURLParams_empty_first_occurrence:
  "parseURLParams [(js ''id'', []), (js ''id'', js ''PTSC2025-0001'')] (js ''id'')
     = Some (js ''PTSC2025-0001'')
   \<and> parseURLParams [(js ''id'', js ''A''), (js ''id'', js ''B'')] (js ''id'') = Some (js ''A'')"
  by (simp add: parseURLParams_def is_set_def js_def object_prototype_keys_def)

section \<open>The Display Controller\<close>

lemma js_block_none: "js ''block'' \<noteq> js ''none''" "js ''none'' \<noteq> js ''block''"
  by (simp_all add: js_def)

lemma updateOpenGraphMeta_frame: "frame p (updateOpenGraphMeta c p)"
  by (simp add: frame_def updateOpenGraphMeta_def Let_def split: sum.splits)

lemma populate_frame: "frame p (snd (populate e c p))"
  using updateOpenGraphMeta_frame [of _ c]
  by (simp add: populate_def Let_def frame_def set_title_def split: sum.splits)

lemma display_showError:
  "errorState p \<noteq> None \<Longrightarrow> display_state (showError p) = Some ERROR"
  by (auto simp: display_state_def showError_def visible_def set_style_def js_block_none)

lemma effects_showError: "effects (showError p) = effects p"
  by (simp add: showError_def)

lemma effects_showLoading: "effects (showLoading p) = effects p"
  by (simp add: showLoading_def)

lemma effects_applyResponsiveScale: "effects (applyResponsiveScale p) = effects p"
  by (simp add: applyResponsiveScale_def Let_def split: option.splits)

lemma effects_enableClientProtection: "effects (enableClientProtection p) = effects p"
  by (simp add: enableClientProtection_def addEventListener_def Let_def split: option.splits)

lemma effects_showCertificate: "effects (showCertificate p) = effects p"
  by (simp add: showCertificate_def Let_def effects_applyResponsiveScale
        effects_enableClientProtection split: option.splits)

lemma effects_updateCertificateDisplay: "effects (updateCertificateDisplay e c p) = effects p"
proof (cases "populate e c p")
  case (Pair r q)
  then have "frame p q" using populate_frame [of p e c] by simp
  then show ?thesis
    by (cases r) (simp_all add: updateCertificateDisplay_def Pair frame_def effects_showError)
qed

lemma regions_applyResponsiveScale:
  "loadingState (applyResponsiveScale p) = loadingState p"
  "errorState (applyResponsiveScale p) = errorState p"
  "certificateState (applyResponsiveScale p) = certificateState p"
  by (simp_all add: applyResponsiveScale_def Let_def split: option.splits)

lemma regions_enableClientProtection:
  "loadingState (enableClientProtection p) = loadingState p"
  "errorState (enableClientProtection p) = errorState p"
  "certificateState (enableClientProtection p) = certificateState p"
  by (simp_all add: enableClientProtection_def addEventListener_def Let_def split: option.splits)

lemma display_showCertificate:
  "certificateState p \<noteq> None \<Longrightarrow> display_state (showCertificate p) = Some CERTIFICATE"
  by (auto simp: display_state_def showCertificate_def visible_def set_style_def js_block_none
        Let_def regions_applyResponsiveScale regions_enableClientProtection)

lemma certificateState_updateCertificateDisplay:
  "certificateState (updateCertificateDisplay e c p) = None \<longleftrightarrow> certificateState p = None"
proof (cases "populate e c p")
  case (Pair r q)
  then have "frame p q" using populate_frame [of p e c] by simp
  then show ?thesis
    by (cases r) (simp_all add: updateCertificateDisplay_def Pair frame_def showError_def set_style_def)
qed

lemma failed_update_shows_certificate:
  "certificateState p \<noteq> None \<Longrightarrow>
   display_state (showCertificate (updateCertificateDisplay e c p)) = Some CERTIFICATE"
  by (simp add: display_showCertificate certificateState_updateCertificateDisplay)

lemma effects_validateCertificate:
  "effects (snd (validateCertificate e i k p)) = effects p @ [Fetch (js ''certificates.json'')]"
  by (simp add: validateCertificate_def fetchCertificates_def emit_def Let_def
        split: fetch_outcome.splits option.splits document.splits sum.splits)

text \<open>
  Claim C5. When the parsed parameters lack \<open>id\<close> or \<open>key\<close>, or hold the empty string for
  one of them, \<open>verifyCertificate\<close> shows the error state (the ERROR display state on a page
  that has the error region) and adds no effect: the record collection is not fetched. When
  both are present the effects are the loading delay and then the fetch, so the check of the
  parameters comes before every fetch.
\<close>

theorem verifyCertificate_params_checked_before_fetch:
  "(\<not> present (parseURLParams entries (js ''id'')) \<or> \<not> present (parseURLParams entries (js ''key''))
      \<longrightarrow> verifyCertificate e entries p = showError (showLoading p)
        \<and> effects (verifyCertificate e entries p) = effects p
        \<and> (errorState p \<noteq> None \<longrightarrow> display_state (verifyCertificate e entries p) = Some ERROR))
   \<and> (present (parseURLParams entries (js ''id'')) \<and> present (parseURLParams entries (js ''key''))
      \<longrightarrow> effects (verifyCertificate e entries p)
          = effects p @ [Delay 1000, Fetch (js ''certificates.json'')])"
proof (intro conjI impI)
  assume missing: "\<not> present (parseURLParams entries (js ''id'')) \<or> \<not> present (parseURLParams entries (js ''key''))"
  then show v: "verifyCertificate e entries p = showError (showLoading p)"
    by (auto simp: verifyCertificate_def Let_def)
  show "effects (verifyCertificate e entries p) = effects p"
    by (simp add: v effects_showError effects_showLoading)
  show "display_state (verifyCertificate e entries p) = Some ERROR" if "errorState p \<noteq> None"
    using that by (simp add: v display_showError showLoading_def set_style_def)
next
  assume both: "present (parseURLParams entries (js ''id'')) \<and> present (parseURLParams entries (js ''key''))"
  obtain r q where v: "validateCertificate e (parseURLParams entries (js ''id''))
       (parseURLParams entries (js ''key'')) (emit (Delay 1000) (showLoading p)) = (r, q)"
    by (cases "validateCertificate e (parseURLParams entries (js ''id''))
       (parseURLParams entries (js ''key'')) (emit (Delay 1000) (showLoading p))")
  have q: "effects q = effects p @ [Delay 1000, Fetch (js ''certificates.json'')]"
    using effects_validateCertificate [of e "parseURLParams entries (js ''id'')"
        "parseURLParams entries (js ''key'')" "emit (Delay 1000) (showLoading p)"]
    unfolding v by (simp add: emit_def effects_showLoading)
  show "effects (verifyCertificate e entries p) = effects p @ [Delay 1000, Fetch (js ''certificates.json'')]"
    using both
    by (simp add: verifyCertificate_def Let_def v q effects_showCertificate
          effects_updateCertificateDisplay effects_showError split: option.splits)
qed


theorem verifyCertificate_params_checked_before_fetch_witness:
  "\<not> present (parseURLParams [(js ''id'', js ''PTSC2025-0001'')] (js ''key''))
   \<and> verifyCertificate example_env [(js ''id'', js ''PTSC2025-0001'')] example_page
       = showError (showLoading example_page)
   \<and> effects (verifyCertificate example_env [(js ''id'', js ''PTSC2025-0001'')] example_page) = []
   \<and> errorState example_page \<noteq> None
   \<and> display_state (verifyCertificate example_env [(js ''id'', js ''PTSC2025-0001'')] example_page)
       = Some ERROR
   \<and> present (parseURLParams [(js ''id'', js ''X''), (js ''key'', js ''Y'')] (js ''id''))
   \<and> present (parseURLParams [(js ''id'', js ''X''), (js ''key'', js ''Y'')] (js ''key''))
   \<and> effects (verifyCertificate example_env [(js ''id'', js ''X''), (js ''key'', js ''Y'')] example_page)
       = [Delay 1000, Fetch (js ''certificates.json'')]"
proof -
  have k: "\<not> present (parseURLParams [(js ''id'', js ''PTSC2025-0001'')] (js ''key''))"
    by (simp add: parseURLParams_def is_set_def present_def js_def object_prototype_keys_def)
  have b: "present (parseURLParams [(js ''id'', js ''X''), (js ''key'', js ''Y'')] (js ''id''))"
      "present (parseURLParams [(js ''id'', js ''X''), (js ''key'', js ''Y'')] (js ''key''))"
    by (simp_all add: parseURLParams_def is_set_def present_def js_def object_prototype_keys_def)
  have e: "errorState example_page \<noteq> None" "effects example_page = []"
    by (simp_all add: example_page_def)
  note t1 = verifyCertificate_params_checked_before_fetch
              [of "[(js ''id'', js ''PTSC2025-0001'')]" example_env example_page,
               THEN conjunct1, THEN mp, OF disjI2 [OF k]]
  note t2 = verifyCertificate_params_checked_before_fetch
              [of "[(js ''id'', js ''X''), (js ''key'', js ''Y'')]" example_env example_page,
               THEN conjunct2, THEN mp, OF conjI [OF b]]
  from t1 have a1: "verifyCertificate example_env [(js ''id'', js ''PTSC2025-0001'')] example_page
       = showError (showLoading example_page)"
    by (rule conjunct1)
  from t1 have "effects (verifyCertificate example_env [(js ''id'', js ''PTSC2025-0001'')] example_page)
       = effects example_page"
    by blast
  then have a2: "effects (verifyCertificate example_env [(js ''id'', js ''PTSC2025-0001'')] example_page) = []"
    unfolding e(2) .
  from t1 e(1) have a3: "display_state (verifyCertificate example_env [(js ''id'', js ''PTSC2025-0001'')] example_page)
       = Some ERROR"
    by blast
  from t2 have a4: "effects (verifyCertificate example_env [(js ''id'', js ''X''), (js ''key'', js ''Y'')] example_page)
       = [Delay 1000, Fetch (js ''certificates.json'')]"
    unfolding e(2) by simp
  show ?thesis
    by (intro conjI k a1 a2 e(1) a3 b a4)
qed

text \<open>
  A record whose name cannot be converted to a string makes the \<open>try\<close> block of
  \<open>updateCertificateDisplay\<close> throw, on every page that has the element for the name.
\<close>

lemma populate_unprintable:
  "recipientName p \<noteq> None \<Longrightarrow> fst (populate e unprintable p) = Some TypeError"
  by (simp add: populate_def write_text_def unprintable_def jane_def sanitizeText_def
        dom_string_def Let_def js_def split: sum.splits)

lemma verifyCertificate_matched:
  assumes "fetch_result e = Response True (Some (Certificates (map Object cs)))"
    and "list_all well_typed cs"
    and "present (parseURLParams entries (js ''id''))"
    and "present (parseURLParams entries (js ''key''))"
    and "find (exact_match (parseURLParams entries (js ''id'')) (parseURLParams entries (js ''key''))) cs
         = Some c"
  shows "verifyCertificate e entries p
         = showCertificate (updateCertificateDisplay e c
             (emit (Fetch (js ''certificates.json'')) (emit (Delay 1000) (showLoading p))))"
  using assms
  by (simp add: verifyCertificate_def validateCertificate_def fetchCertificates_def Let_def
        find_entry_typed or_null_Object)

text \<open>
  Claim C2. The specification sends a rendering failure on the CERTIFICATE path to the ERROR
  display state. \<open>updateCertificateDisplay\<close> catches the error and calls \<open>showError\<close>, but it
  returns normally, and \<open>verifyCertificate\<close> goes on to call \<open>showCertificate\<close>, which hides
  the error region again: by \<open>failed_update_shows_certificate\<close> the flow ends in CERTIFICATE on
  every page that has the certificate region. Here the matched record is \<open>unprintable\<close>.
\<close>

theorem verifyCertificate_render_failure_shows_certificate:
  "fst (validateCertificate example_env (Some (js ''PTSC2025-0002'')) (Some (js ''AAAAAAAAAA''))
          (emit (Delay 1000) (showLoading example_page))) = Some unprintable
   \<and> fst (populate example_env unprintable
          (emit (Fetch (js ''certificates.json'')) (emit (Delay 1000) (showLoading example_page))))
       = Some TypeError
   \<and> display_state
        (verifyCertificate example_env
           [(js ''id'', js ''PTSC2025-0002''), (js ''key'', js ''AAAAAAAAAA'')] example_page)
       = Some CERTIFICATE
   \<and> display_state
        (verifyCertificate example_env
           [(js ''id'', js ''PTSC2025-0002''), (js ''key'', js ''AAAAAAAAAA'')] example_page)
       \<noteq> Some ERROR"
proof -
  let ?q = "[(js ''id'', js ''PTSC2025-0002''), (js ''key'', js ''AAAAAAAAAA'')]"
  let ?p = "emit (Fetch (js ''certificates.json'')) (emit (Delay 1000) (showLoading example_page))"
  note h = example_env_loaded
  note w = example_certificates_typed
  have i: "parseURLParams ?q (js ''id'') = Some (js ''PTSC2025-0002'')"
    and k: "parseURLParams ?q (js ''key'') = Some (js ''AAAAAAAAAA'')"
    by (simp_all add: parseURLParams_def is_set_def js_def object_prototype_keys_def)
  have f: "find (exact_match (Some (js ''PTSC2025-0002'')) (Some (js ''AAAAAAAAAA''))) example_certificates
           = Some unprintable"
    by (simp add: example_certificates_def unprintable_def jane_def exact_match_def or_empty_def
          trim_def js_def is_space_def)
  have 1: "fst (validateCertificate example_env (Some (js ''PTSC2025-0002'')) (Some (js ''AAAAAAAAAA''))
          (emit (Delay 1000) (showLoading example_page))) = Some unprintable"
    using validateCertificate_loaded [OF h w] f by simp
  have r: "recipientName ?p \<noteq> None" "certificateState ?p \<noteq> None"
    by (simp_all add: emit_def showLoading_def example_page_def set_style_def)
  have 2: "fst (populate example_env unprintable ?p) = Some TypeError"
    using r(1) by (rule populate_unprintable)
  have v: "verifyCertificate example_env ?q example_page
           = showCertificate (updateCertificateDisplay example_env unprintable ?p)"
  proof (rule verifyCertificate_matched [OF h w])
    show "present (parseURLParams ?q (js ''id''))"
      unfolding i by (simp add: present_def js_def)
    show "present (parseURLParams ?q (js ''key''))"
      unfolding k by (simp add: present_def js_def)
    show "find (exact_match (parseURLParams ?q (js ''id'')) (parseURLParams ?q (js ''key'')))
            example_certificates = Some unprintable"
      unfolding i k by (rule f)
  qed
  have 3: "display_state (verifyCertificate example_env ?q example_page) = Some CERTIFICATE"
    unfolding v using r(2) by (rule failed_update_shows_certificate)
  show ?thesis using 1 2 3 by simp
qed

text \<open>At that input the error region ends hidden and the certificate region shown.\<close>

theorem verifyCertificate_render_failure_shows_certificate_witness:
  "visible (certificateState
      (verifyCertificate example_env
         [(js ''id'', js ''PTSC2025-0002''), (js ''key'', js ''AAAAAAAAAA'')] example_page))
   \<and> \<not> visible (errorState
      (verifyCertificate example_env
         [(js ''id'', js ''PTSC2025-0002''), (js ''key'', js ''AAAAAAAAAA'')] example_page))"
proof -
  have "display_state
        (verifyCertificate example_env
           [(js ''id'', js ''PTSC2025-0002''), (js ''key'', js ''AAAAAAAAAA'')] example_page)
       = Some CERTIFICATE"
    using verifyCertificate_render_failure_shows_certificate by (elim conjE)
  then show ?thesis
    by (simp add: display_state_def split: if_splits)
qed

section \<open>Responsive scaling\<close>

text \<open>
  Claim C6. When the certificate container exists, the scale that \<open>applyResponsiveScale\<close>
  applies is the scale factor of the specification for the available width and height, which
  are the viewport width and height minus the padding (20 and 100 below a viewport width of
  768, else 40 and 200); the factor lies between 0.25 and 1. Without the container nothing is
  applied.
\<close>

theorem applyResponsiveScale_factor:
  "(container p \<noteq> None \<longrightarrow>
      container (applyResponsiveScale p)
      = Some (Some (fit_scale
          (of_int (innerWidth p - (if innerWidth p < 768 then 20 else 40)))
          (of_int (innerHeight p - (if innerWidth p < 768 then 100 else 200))))))
   \<and> (container p = None \<longrightarrow> applyResponsiveScale p = p)
   \<and> 1 / 4 \<le> fit_scale w h \<and> fit_scale w h \<le> 1"
  by (auto simp: applyResponsiveScale_def fit_scale_def Let_def min.assoc)

theorem applyResponsiveScale_factor_witness:
  "container example_page \<noteq> None
   \<and> container (applyResponsiveScale example_page) = Some (Some (300 / 397))
   \<and> container (example_page\<lparr>innerWidth := 200, innerHeight := 300\<rparr>) \<noteq> None
   \<and> container (applyResponsiveScale (example_page\<lparr>innerWidth := 200, innerHeight := 300\<rparr>))
       = Some (Some (1 / 4))
   \<and> container (example_page\<lparr>container := None\<rparr>) = None
   \<and> applyResponsiveScale (example_page\<lparr>container := None\<rparr>) = example_page\<lparr>container := None\<rparr>"
  using applyResponsiveScale_factor [of example_page]
    applyResponsiveScale_factor [of "example_page\<lparr>innerWidth := 200, innerHeight := 300\<rparr>"]
    applyResponsiveScale_factor [of "example_page\<lparr>container := None\<rparr>"]
  by (simp add: example_page_def fit_scale_def)

section \<open>Client-side protection\<close>

lemma filter_remove1: "P x \<Longrightarrow> filter P (remove1 x xs) = remove1 x (filter P xs)"
  by (induction xs) auto

lemma enable_installed: "protectionHandlers p \<noteq> None \<Longrightarrow> enableClientProtection p = p"
  by (auto simp: enableClientProtection_def)

lemma enable_sets_flag: "protectionHandlers (enableClientProtection p) \<noteq> None"
  by (auto simp: enableClientProtection_def addEventListener_def Let_def split: option.splits)

lemma disable_clears_flag: "protectionHandlers (disableClientProtection p) = None"
  by (auto simp: disableClientProtection_def removeEventListener_def Let_def split: option.splits)

lemma disable_not_installed: "protectionHandlers p = None \<Longrightarrow> disableClientProtection p = p"
  by (simp add: disableClientProtection_def)

lemma enable_keeps_pair: "installed_pair p \<Longrightarrow> installed_pair (enableClientProtection p)"
proof (cases "protectionHandlers p")
  case None
  assume "installed_pair p"
  with None have e: "filter is_protection (listeners p) = []"
    by (simp add: installed_pair_def protection_listeners_def)
  have a: "(ev, OnContext n, c) \<notin> set (listeners p)" for ev n c
  proof
    assume "(ev, OnContext n, c) \<in> set (listeners p)"
    then have "(ev, OnContext n, c) \<in> set (filter is_protection (listeners p))" by simp
    then show False by (simp only: e) simp
  qed
  have b: "(ev, OnKey n, c) \<notin> set (listeners p)" for ev n c
  proof
    assume "(ev, OnKey n, c) \<in> set (listeners p)"
    then have "(ev, OnKey n, c) \<in> set (filter is_protection (listeners p))" by simp
    then show False by (simp only: e) simp
  qed
  show ?thesis
    using None e a b
    by (simp add: installed_pair_def protection_listeners_def enableClientProtection_def
          addEventListener_def Let_def)
next
  case (Some h)
  assume "installed_pair p"
  then show ?thesis using Some by (simp add: enable_installed)
qed

lemma disable_keeps_pair: "installed_pair p \<Longrightarrow> installed_pair (disableClientProtection p)"
proof (cases "protectionHandlers p")
  case None
  assume "installed_pair p"
  then show ?thesis using None by (simp add: disable_not_installed)
next
  case (Some h)
  obtain c k where h: "h = (c, k)" by (cases h)
  assume "installed_pair p"
  then have f: "filter is_protection (listeners p) = [(js ''contextmenu'', c, False), (js ''keydown'', k, True)]"
    using Some h by (simp add: installed_pair_def protection_listeners_def)
  have "(js ''contextmenu'', c, False) \<in> set (filter is_protection (listeners p))"
       "(js ''keydown'', k, True) \<in> set (filter is_protection (listeners p))"
    by (simp_all only: f) simp_all
  then have pc: "is_protection (js ''contextmenu'', c, False)" and pk: "is_protection (js ''keydown'', k, True)"
    by simp_all
  have ne: "(js ''keydown'', k, True) \<noteq> (js ''contextmenu'', c, False)" by simp
  show ?thesis
    using Some h
    by (simp add: installed_pair_def protection_listeners_def disableClientProtection_def
          removeEventListener_def Let_def filter_remove1 [of is_protection, OF pc] filter_remove1 [of is_protection, OF pk] f)
qed

lemma run_keeps_pair: "installed_pair p \<Longrightarrow> installed_pair (run calls p)"
  by (induction calls p rule: run.induct) (simp_all add: enable_keeps_pair disable_keeps_pair)

lemma installed_pair_length: "installed_pair p \<Longrightarrow> length (protection_listeners p) \<le> 2"
  by (auto simp: installed_pair_def split: option.splits)

text \<open>
  Claim C9. \<open>enableClientProtection\<close> does nothing when the handlers are installed, so calling it
  twice is calling it once, and it leaves the flag set; \<open>disableClientProtection\<close> clears the
  flag and does nothing when nothing is installed. From a page with no protection installed,
  after any sequence of calls the document holds at most one pair of protection listeners: the
  pair the flag holds, or none.
\<close>

theorem clientProtection_idempotent:
  "(protectionHandlers p \<noteq> None \<longrightarrow> enableClientProtection p = p)
   \<and> enableClientProtection (enableClientProtection p) = enableClientProtection p
   \<and> protectionHandlers (enableClientProtection p) \<noteq> None
   \<and> protectionHandlers (disableClientProtection p) = None
   \<and> (protectionHandlers p = None \<longrightarrow> disableClientProtection p = p)
   \<and> disableClientProtection (disableClientProtection p) = disableClientProtection p
   \<and> (protectionHandlers p = None \<and> protection_listeners p = [] \<longrightarrow>
        installed_pair (run calls p) \<and> length (protection_listeners (run calls p)) \<le> 2)"
proof -
  have "installed_pair (run calls p) \<and> length (protection_listeners (run calls p)) \<le> 2"
    if "protectionHandlers p = None" "protection_listeners p = []"
  proof -
    have "installed_pair p" using that by (simp add: installed_pair_def)
    then have "installed_pair (run calls p)" by (rule run_keeps_pair)
    then show ?thesis by (simp add: installed_pair_length)
  qed
  then show ?thesis
    by (simp add: enable_installed enable_sets_flag disable_clears_flag disable_not_installed)
qed

theorem clientProtection_idempotent_witness:
  "protectionHandlers example_page = None \<and> protection_listeners example_page = []
   \<and> protectionHandlers (enableClientProtection example_page) \<noteq> None
   \<and> enableClientProtection (enableClientProtection example_page) = enableClientProtection example_page
   \<and> disableClientProtection example_page = example_page
   \<and> protection_listeners (run [Enable, Enable, Disable, Enable, Enable] example_page)
       = [(js ''contextmenu'', OnContext 1, False), (js ''keydown'', OnKey 1, True)]
   \<and> length (protection_listeners (run [Enable, Enable, Disable, Enable, Enable] example_page)) \<le> 2"
proof -
  have n: "protectionHandlers example_page = None" "protection_listeners example_page = []"
    by (simp_all add: example_page_def protection_listeners_def)
  have r: "protection_listeners (run [Enable, Enable, Disable, Enable, Enable] example_page)
       = [(js ''contextmenu'', OnContext 1, False), (js ''keydown'', OnKey 1, True)]"
    by (simp add: example_page_def protection_listeners_def enableClientProtection_def
          disableClientProtection_def addEventListener_def removeEventListener_def Let_def js_def)
  show ?thesis
    using clientProtection_idempotent [of example_page "[Enable, Enable, Disable, Enable, Enable]"] n r
    by simp
qed

section \<open>The Form Gate\<close>

lemma in_class_Digit: "in_class Digit = is_digit"
  by (rule ext) (simp add: is_digit_def)

lemma in_class_AlphaNum: "in_class AlphaNum = is_alphanumeric"
  by (rule ext) (auto simp: is_alphanumeric_def is_digit_def)

lemma length13:
  assumes "length s = 13"
  obtains c0 c1 c2 c3 c4 c5 c6 c7 c8 c9 c10 c11 c12
    where "s = [c0, c1, c2, c3, c4, c5, c6, c7, c8, c9, c10, c11, c12]"
  using assms by (auto simp: eval_nat_numeral length_Suc_conv)

lemma test_id_length: "test certificate_id_regex s \<Longrightarrow> length s = 13"
  by (auto simp: certificate_id_regex_def)

lemma test_id_iff: "test certificate_id_regex s \<longleftrightarrow> well_formed_id s"
proof (cases "length s = 13")
  case True
  then obtain c0 c1 c2 c3 c4 c5 c6 c7 c8 c9 c10 c11 c12 where
    s: "s = [c0, c1, c2, c3, c4, c5, c6, c7, c8, c9, c10, c11, c12]"
    by (rule length13)
  show ?thesis
    unfolding s by (simp add: certificate_id_regex_def well_formed_id_def js_def in_class_Digit)
next
  case False
  then show ?thesis using test_id_length by (auto simp: well_formed_id_def)
qed

lemma test_key_iff: "test certificate_key_regex s \<longleftrightarrow> well_formed_key s"
  by (auto simp: certificate_key_regex_def well_formed_key_def in_class_AlphaNum)


lemma encodeURIComponent_unescaped:
  "list_all uri_unescaped s \<Longrightarrow> encodeURIComponent s = Inr s"
  by (induction s) simp_all

lemma is_alphanumeric_unescaped: "is_alphanumeric c \<Longrightarrow> uri_unescaped c"
  by (simp add: uri_unescaped_def in_class_AlphaNum)

lemma is_digit_unescaped: "is_digit c \<Longrightarrow> uri_unescaped c"
  by (simp add: is_alphanumeric_unescaped is_alphanumeric_def)

lemma well_formed_key_unescaped: "well_formed_key s \<Longrightarrow> list_all uri_unescaped s"
  by (auto simp: well_formed_key_def list_all_iff is_alphanumeric_unescaped)

lemma well_formed_id_unescaped:
  assumes "well_formed_id s"
  shows "list_all uri_unescaped s"
proof -
  from assms have "length s = 13" by (simp add: well_formed_id_def)
  then obtain c0 c1 c2 c3 c4 c5 c6 c7 c8 c9 c10 c11 c12 where
    s: "s = [c0, c1, c2, c3, c4, c5, c6, c7, c8, c9, c10, c11, c12]"
    by (rule length13)
  have "uri_unescaped (of_char CHR ''P'')" "uri_unescaped (of_char CHR ''T'')"
       "uri_unescaped (of_char CHR ''S'')" "uri_unescaped (of_char CHR ''C'')"
       "uri_unescaped (of_char CHR ''-'')"
    by (simp_all add: uri_unescaped_def)
  then show ?thesis
    using assms unfolding s
    by (auto simp: well_formed_id_def js_def is_digit_unescaped)
qed

lemma handleFormSubmit_accepts:
  assumes "well_formed_id (trim a)" and "well_formed_key (trim b)"
  shows "handleFormSubmit (Some a) (Some b) p
         = emit (Navigate (js ''certificate.html?id='' @ trim a @ js ''&key='' @ trim b)) p"
proof -
  have ne: "trim a \<noteq> []" "trim b \<noteq> []"
    using assms by (auto simp: well_formed_id_def well_formed_key_def)
  have enc: "encodeURIComponent (trim a) = Inr (trim a)" "encodeURIComponent (trim b) = Inr (trim b)"
    using assms
    by (simp_all add: encodeURIComponent_unescaped well_formed_id_unescaped well_formed_key_unescaped)
  show ?thesis
    using assms ne
    by (simp add: handleFormSubmit_def Let_def present_def or_empty_def enc test_id_iff test_key_iff)
qed

lemma handleFormSubmit_rejects:
  assumes "\<not> (\<exists>a b. f = Some a \<and> g = Some b \<and> well_formed_id (trim a) \<and> well_formed_key (trim b))"
  shows "\<exists>m. handleFormSubmit f g p = emit (Alert m) p"
proof (cases "present (map_option trim f) \<and> present (map_option trim g)")
  case False
  then show ?thesis by (auto simp: handleFormSubmit_def Let_def)
next
  case True
  then obtain a b where fg: "f = Some a" "g = Some b"
    by (cases f; cases g) (simp_all add: present_def)
  with assms have "\<not> well_formed_id (trim a) \<or> \<not> well_formed_key (trim b)" by simp
  then show ?thesis
    using True unfolding fg
    by (auto simp: handleFormSubmit_def Let_def or_empty_def test_id_iff test_key_iff)
qed

text \<open>
  Claim C7. The two regular expressions of \<open>handleFormSubmit\<close> accept exactly the identifiers
  of the form \<open>PTSC\<close>, four digits, dash, four digits and exactly the keys of ten alphanumeric
  characters: \<open>PTSC2025-0123\<close> passes and \<open>PTSC25-123\<close> does not, \<open>ABCDEFGHIJ\<close> passes and
  \<open>ABCDEFGHI\<close> does not. The form navigates to the verification page, with the trimmed values
  as parameters, when both trimmed fields are accepted; in every other case it raises an alert
  and does nothing else, so that a rejection blocks the navigation.
\<close>

theorem handleFormSubmit_gate:
  "(test certificate_id_regex s \<longleftrightarrow> well_formed_id s)
   \<and> (test certificate_key_regex s \<longleftrightarrow> well_formed_key s)
   \<and> test certificate_id_regex (js ''PTSC2025-0123'')
   \<and> \<not> test certificate_id_regex (js ''PTSC25-123'')
   \<and> test certificate_key_regex (js ''ABCDEFGHIJ'')
   \<and> \<not> test certificate_key_regex (js ''ABCDEFGHI'')
   \<and> (well_formed_id (trim a) \<and> well_formed_key (trim b) \<longrightarrow>
        handleFormSubmit (Some a) (Some b) p
        = emit (Navigate (js ''certificate.html?id='' @ trim a @ js ''&key='' @ trim b)) p)
   \<and> (\<not> (\<exists>a b. f = Some a \<and> g = Some b \<and> well_formed_id (trim a) \<and> well_formed_key (trim b)) \<longrightarrow>
        (\<exists>m. handleFormSubmit f g p = emit (Alert m) p))"
proof -
  have ex: "well_formed_id (js ''PTSC2025-0123'')" "\<not> well_formed_id (js ''PTSC25-123'')"
    "well_formed_key (js ''ABCDEFGHIJ'')" "\<not> well_formed_key (js ''ABCDEFGHI'')"
    by (simp_all add: well_formed_id_def well_formed_key_def js_def is_digit_def is_alphanumeric_def)
  show ?thesis
    using handleFormSubmit_accepts [of a b p] handleFormSubmit_rejects [of f g p]
    by (simp only: test_id_iff test_key_iff ex) blast
qed

theorem handleFormSubmit_gate_witness:
  "well_formed_id (trim (js ''PTSC2025-0123 '')) \<and> well_formed_key (trim (js ''ABCDEFGHIJ''))
   \<and> effects (handleFormSubmit (Some (js ''PTSC2025-0123 '')) (Some (js ''ABCDEFGHIJ'')) example_page)
       = [Navigate (js ''certificate.html?id=PTSC2025-0123&key=ABCDEFGHIJ'')]
   \<and> \<not> (\<exists>a b. Some (js ''PTSC25-123'') = Some a \<and> Some (js ''ABCDEFGHIJ'') = Some b
           \<and> well_formed_id (trim a) \<and> well_formed_key (trim b))
   \<and> handleFormSubmit (Some (js ''PTSC25-123'')) (Some (js ''ABCDEFGHIJ'')) example_page
       = emit (Alert (js ''Certificate ID should be in format: PTSC2025-0123'')) example_page
   \<and> handleFormSubmit (Some (js ''PTSC2025-0123'')) (Some (js ''ABCDEFGHI'')) example_page
       = emit (Alert (js ''Verification key should be 10 alphanumeric characters'')) example_page"
proof -
  have t: "trim (js ''PTSC2025-0123 '') = js ''PTSC2025-0123''" "trim (js ''ABCDEFGHIJ'') = js ''ABCDEFGHIJ''"
    "trim (js ''PTSC25-123'') = js ''PTSC25-123''" "trim (js ''ABCDEFGHI'') = js ''ABCDEFGHI''"
    "trim (js ''PTSC2025-0123'') = js ''PTSC2025-0123''"
    by (simp_all add: trim_def js_def is_space_def)
  note g = handleFormSubmit_gate [of "js ''PTSC25-123''"]
  have ok: "well_formed_id (trim (js ''PTSC2025-0123 ''))" "well_formed_key (trim (js ''ABCDEFGHIJ''))"
    unfolding t
    using handleFormSubmit_gate [of "js ''PTSC2025-0123''"] handleFormSubmit_gate [of "js ''ABCDEFGHIJ''"]
    by blast+
  have bad: "\<not> well_formed_id (trim (js ''PTSC25-123''))" "\<not> well_formed_key (trim (js ''ABCDEFGHI''))"
    unfolding t
    using g handleFormSubmit_gate [of "js ''ABCDEFGHI''"]
    by blast+
  have "handleFormSubmit (Some (js ''PTSC2025-0123 '')) (Some (js ''ABCDEFGHIJ'')) example_page
        = emit (Navigate (js ''certificate.html?id='' @ trim (js ''PTSC2025-0123 '') @ js ''&key=''
                          @ trim (js ''ABCDEFGHIJ''))) example_page"
    using handleFormSubmit_gate [of _ "js ''PTSC2025-0123 ''" "js ''ABCDEFGHIJ''" example_page] ok
    by blast
  then have nav: "effects (handleFormSubmit (Some (js ''PTSC2025-0123 '')) (Some (js ''ABCDEFGHIJ'')) example_page)
       = [Navigate (js ''certificate.html?id=PTSC2025-0123&key=ABCDEFGHIJ'')]"
    unfolding t by (simp add: emit_def example_page_def js_def)
  have rej: "\<not> (\<exists>a b. Some (js ''PTSC25-123'') = Some a \<and> Some (js ''ABCDEFGHIJ'') = Some b
           \<and> well_formed_id (trim a) \<and> well_formed_key (trim b))"
    using bad(1) by simp
  have a1: "handleFormSubmit (Some (js ''PTSC25-123'')) (Some (js ''ABCDEFGHIJ'')) example_page
       = emit (Alert (js ''Certificate ID should be in format: PTSC2025-0123'')) example_page"
    using bad(1) g
    by (simp add: handleFormSubmit_def Let_def present_def or_empty_def t) (simp add: js_def)
  have a2: "handleFormSubmit (Some (js ''PTSC2025-0123'')) (Some (js ''ABCDEFGHI'')) example_page
       = emit (Alert (js ''Verification key should be 10 alphanumeric characters'')) example_page"
    using bad(2) ok(1) handleFormSubmit_gate [of "js ''ABCDEFGHI''"] handleFormSubmit_gate [of "js ''PTSC2025-0123''"]
    by (simp add: handleFormSubmit_def Let_def present_def or_empty_def t) (simp add: js_def)
  show ?thesis
    by (intro conjI ok nav rej a1 a2)
qed

section \<open>The Export Pipeline\<close>

lemma fold_max_ge: "a \<le> fold max ns (a::nat)"
  by (induction ns arbitrary: a) (auto intro: order_trans [OF max.cobounded2])

lemma fold_max_bound: "x \<in> set ns \<Longrightarrow> x \<le> fold max ns (a::nat)"
proof (induction ns arbitrary: a)
  case Nil
  then show ?case by simp
next
  case (Cons n ns)
  show ?case
  proof (cases "x = n")
    case True
    have "n \<le> max n a" by simp
    also have "\<dots> \<le> fold max ns (max n a)" by (rule fold_max_ge)
    finally show ?thesis using True by simp
  next
    case False
    then have "x \<in> set ns" using Cons.prems by simp
    then show ?thesis using Cons.IH by simp
  qed
qed

lemma fresh_node_new: "fresh_node ns \<notin> set ns"
proof
  assume "fresh_node ns \<in> set ns"
  then have "fresh_node ns \<le> fold max ns 0" by (rule fold_max_bound)
  then show False by (simp add: fresh_node_def)
qed

lemma remove1_appended: "x \<notin> set xs \<Longrightarrow> remove1 x (xs @ [x]) = xs"
  by (simp add: remove1_append)

lemma set_style_None: "(set_style v x = None) = (x = None)"
  by (simp add: set_style_def)

lemma export_image_throws: "fst (export_image e format fb p) \<noteq> None \<longleftrightarrow>
    (format = js ''jpg'' \<and> isl (toDataURL e))
     \<or> (format \<noteq> js ''jpg'' \<and> format = js ''pdf''
         \<and> (new_jsPDF e \<noteq> None \<or> isl (toDataURL e) \<or> addImage e \<noteq> None \<or> save e \<noteq> None))"
  by (simp add: export_image_def split: option.splits sum.splits)

lemma export_image_page:
  "body (snd (export_image e format fb p)) = body p"
  "loadingState (snd (export_image e format fb p)) = loadingState p"
  "errorState (snd (export_image e format fb p)) = errorState p"
  "certificateState (snd (export_image e format fb p)) = certificateState p"
  "navigation (snd (export_image e format fb p)) = navigation p"
  by (simp_all add: export_image_def emit_def split: option.splits sum.splits)

lemma export_image_effects:
  "fst (export_image e format fb p) \<noteq> None \<Longrightarrow> effects (snd (export_image e format fb p)) = effects p"
  by (simp add: export_image_def split: option.splits sum.splits if_splits)

lemma download_try_throws: "fst (download_try e format fb p) \<noteq> None \<longleftrightarrow> export_fails e format"
proof (cases "html2canvas e")
  case None
  obtain r q where x: "export_image e format fb
      (p\<lparr>navigation := set_style (js ''hidden'') (navigation p), cursor := js ''wait''\<rparr>) = (r, q)"
    by (cases "export_image e format fb
      (p\<lparr>navigation := set_style (js ''hidden'') (navigation p), cursor := js ''wait''\<rparr>)")
  have "r \<noteq> None \<longleftrightarrow> export_fails e format"
    using export_image_throws [of e format fb
      "p\<lparr>navigation := set_style (js ''hidden'') (navigation p), cursor := js ''wait''\<rparr>"]
    unfolding x by (simp add: export_fails_def None)
  then show ?thesis
    by (cases r) (simp_all add: download_try_def Let_def None x)
next
  case (Some err)
  then show ?thesis by (simp add: download_try_def Let_def export_fails_def)
qed

lemma download_try_page:
  "body (snd (download_try e format fb p)) = body p
   \<and> loadingState (snd (download_try e format fb p)) = loadingState p
   \<and> errorState (snd (download_try e format fb p)) = errorState p
   \<and> certificateState (snd (download_try e format fb p)) = certificateState p
   \<and> ((navigation (snd (download_try e format fb p)) = None) = (navigation p = None))"
proof (cases "html2canvas e")
  case None
  obtain r q where x: "export_image e format fb
      (p\<lparr>navigation := set_style (js ''hidden'') (navigation p), cursor := js ''wait''\<rparr>) = (r, q)"
    by (cases "export_image e format fb
      (p\<lparr>navigation := set_style (js ''hidden'') (navigation p), cursor := js ''wait''\<rparr>)")
  have q: "body q = body p" "loadingState q = loadingState p" "errorState q = errorState p"
    "certificateState q = certificateState p"
    "navigation q = set_style (js ''hidden'') (navigation p)"
    using export_image_page [of e format fb
      "p\<lparr>navigation := set_style (js ''hidden'') (navigation p), cursor := js ''wait''\<rparr>"]
    unfolding x by simp_all
  show ?thesis
    by (cases r) (simp_all add: download_try_def Let_def None x q set_style_None)
next
  case (Some err)
  then show ?thesis by (simp add: download_try_def Let_def set_style_None)
qed

lemma download_try_alerts:
  assumes "export_fails e format"
  shows "effects (snd (download_try e format fb p)) = effects p"
proof (cases "html2canvas e")
  case None
  obtain r q where x: "export_image e format fb
      (p\<lparr>navigation := set_style (js ''hidden'') (navigation p), cursor := js ''wait''\<rparr>) = (r, q)"
    by (cases "export_image e format fb
      (p\<lparr>navigation := set_style (js ''hidden'') (navigation p), cursor := js ''wait''\<rparr>)")
  have "fst (download_try e format fb p) \<noteq> None" unfolding download_try_throws using assms .
  then have r: "r \<noteq> None"
    by (cases r) (simp_all add: download_try_def Let_def None x)
  then have "effects q = effects p"
    using export_image_effects [of e format fb
      "p\<lparr>navigation := set_style (js ''hidden'') (navigation p), cursor := js ''wait''\<rparr>"]
    unfolding x by simp
  then show ?thesis
    using r by (cases r) (simp_all add: download_try_def Let_def None x)
next
  case (Some err)
  then show ?thesis by (simp add: download_try_def Let_def)
qed

lemma enableClientProtection_page:
  "body (enableClientProtection p) = body p"
  "navigation (enableClientProtection p) = navigation p"
  "loadingState (enableClientProtection p) = loadingState p"
  "errorState (enableClientProtection p) = errorState p"
  "certificateState (enableClientProtection p) = certificateState p"
  "effects (enableClientProtection p) = effects p"
  by (simp_all add: enableClientProtection_def addEventListener_def Let_def split: option.splits)

text \<open>
  Claim C8. In every run of \<open>downloadCertificate\<close> on a page that has the certificate
  container, whatever the libraries do: at the end the clone is no child of the body, whose
  children are those from before the run; the navigation, if the page has one, is visible; the
  three regions of the display are as they were; and when the export fails, the run raises
  exactly one alert and has no other effect.
\<close>

theorem downloadCertificate_cleanup:
  assumes "container p \<noteq> None"
  shows "body (downloadCertificate e format p) = body p
    \<and> fresh_node (body p) \<notin> set (body (downloadCertificate e format p))
    \<and> navigation (downloadCertificate e format p) = set_style (js ''visible'') (navigation p)
    \<and> loadingState (downloadCertificate e format p) = loadingState p
    \<and> errorState (downloadCertificate e format p) = errorState p
    \<and> certificateState (downloadCertificate e format p) = certificateState p
    \<and> (export_fails e format \<longrightarrow>
         effects (downloadCertificate e format p)
         = effects p @ [Alert (js ''Download failed. Please try again or use the print option.'')])"
proof -
  obtain c where c: "container p = Some c" using assms by auto
  define fb where "fb = replace_spaces (if present (recipientName p) then or_empty (recipientName p)
                           else js ''Certificate'') @ js ''_'' @ (if present (certificateId p) then or_empty (certificateId p)
                        else js ''PTSC'') @ js ''_PTSC_Certificate''"
  define p1 where "p1 = p\<lparr>body := body p @ [fresh_node (body p)]\<rparr>"
  obtain r p2 where t: "download_try e format fb p1 = (r, p2)"
    by (cases "download_try e format fb p1")
  define p3 where "p3 = (case r of Some err \<Rightarrow>
      emit (Alert (js ''Download failed. Please try again or use the print option.'')) p2 | None \<Rightarrow> p2)"
  have d: "downloadCertificate e format p
     = enableClientProtection
         (p3\<lparr>body := remove1 (fresh_node (body p)) (body p3),
             navigation := set_style (js ''visible'') (navigation p3)\<rparr>)"
    by (simp add: downloadCertificate_def c Let_def fb_def [symmetric] p1_def [symmetric] t p3_def
          split: option.splits)
  have p2: "body p2 = body p @ [fresh_node (body p)]" "loadingState p2 = loadingState p"
    "errorState p2 = errorState p" "certificateState p2 = certificateState p"
    "(navigation p2 = None) = (navigation p = None)"
    using download_try_page [of e format fb p1] unfolding t by (simp_all add: p1_def)
  have p3: "body p3 = body p @ [fresh_node (body p)]" "loadingState p3 = loadingState p"
    "errorState p3 = errorState p" "certificateState p3 = certificateState p"
    "(navigation p3 = None) = (navigation p = None)"
    using p2 by (simp_all add: p3_def emit_def split: option.splits)
  have nav: "set_style (js ''visible'') (navigation p3) = set_style (js ''visible'') (navigation p)"
    using p3(5) by (cases "navigation p3"; cases "navigation p") (simp_all add: set_style_def)
  have fx: "effects p3 = effects p @ [Alert (js ''Download failed. Please try again or use the print option.'')]"
    if "export_fails e format"
  proof -
    have "r \<noteq> None" using download_try_throws [of e format fb p1] that unfolding t by simp
    moreover have "effects p2 = effects p"
      using download_try_alerts [OF that, of fb p1] unfolding t by (simp add: p1_def)
    ultimately show ?thesis by (auto simp: p3_def emit_def)
  qed
  show ?thesis
    using fx by (simp add: d enableClientProtection_page p3 nav remove1_appended fresh_node_new)
qed

theorem downloadCertificate_cleanup_witness:
  "container example_page \<noteq> None
   \<and> export_fails (example_env\<lparr>html2canvas := Some (Error (js ''tainted canvas''))\<rparr>) (js ''pdf'')
   \<and> body (downloadCertificate (example_env\<lparr>html2canvas := Some (Error (js ''tainted canvas''))\<rparr>)
             (js ''pdf'') example_page) = [0, 1, 2]
   \<and> navigation (downloadCertificate (example_env\<lparr>html2canvas := Some (Error (js ''tainted canvas''))\<rparr>)
             (js ''pdf'') example_page) = Some (js ''visible'')
   \<and> effects (downloadCertificate (example_env\<lparr>html2canvas := Some (Error (js ''tainted canvas''))\<rparr>)
             (js ''pdf'') example_page)
       = [Alert (js ''Download failed. Please try again or use the print option.'')]
   \<and> certificateState (downloadCertificate (example_env\<lparr>html2canvas := Some (Error (js ''tainted canvas''))\<rparr>)
             (js ''pdf'') example_page) = Some (js ''none'')"
proof -
  have c: "container example_page \<noteq> None" by (simp add: example_page_def)
  have f: "export_fails (example_env\<lparr>html2canvas := Some (Error (js ''tainted canvas''))\<rparr>) (js ''pdf'')"
    by (simp add: export_fails_def)
  have v: "body example_page = [0, 1, 2]" "effects example_page = []"
    "set_style (js ''visible'') (navigation example_page) = Some (js ''visible'')"
    "certificateState example_page = Some (js ''none'')"
    by (simp_all add: example_page_def set_style_def)
  show ?thesis
    using downloadCertificate_cleanup [OF c, of "example_env\<lparr>html2canvas := Some (Error (js ''tainted canvas''))\<rparr>" "js ''pdf''"]
      c f unfolding v by simp
qed

end
